theory Spec2Isabelle
  imports Complex_Main "HOL-Library.Monad_Syntax"
begin

section \<open>JavaScript numbers\<close>

text \<open>
  The detector computes on JavaScript numbers. A number is modelled as a real, one of the
  two infinities, or NaN, so that a division by zero gives what JavaScript gives instead
  of HOL's \<open>x / 0 = 0\<close>. Arithmetic on the finite values is exact: rounding, overflow
  to infinity and the sign of zero are outside the model (a zero divisor counts as \<open>+0\<close>).
  Rounding to a double keeps order but merges neighbouring values, so where a property
  below orders the results of two computations, the order is not strict.
\<close>

datatype jsnum = Fin real | PInf | NInf | NaN

fun jneg :: "jsnum \<Rightarrow> jsnum" where
  "jneg (Fin a) = Fin (- a)"
| "jneg PInf = NInf"
| "jneg NInf = PInf"
| "jneg NaN = NaN"

fun jadd :: "jsnum \<Rightarrow> jsnum \<Rightarrow> jsnum" where
  "jadd (Fin a) (Fin b) = Fin (a + b)"
| "jadd (Fin a) PInf = PInf"
| "jadd (Fin a) NInf = NInf"
| "jadd PInf (Fin b) = PInf"
| "jadd PInf PInf = PInf"
| "jadd PInf NInf = NaN"
| "jadd NInf (Fin b) = NInf"
| "jadd NInf NInf = NInf"
| "jadd NInf PInf = NaN"
| "jadd NaN b = NaN"
| "jadd a NaN = NaN"

definition jsub :: "jsnum \<Rightarrow> jsnum \<Rightarrow> jsnum" where
  "jsub a b = jadd a (jneg b)"

fun jmul :: "jsnum \<Rightarrow> jsnum \<Rightarrow> jsnum" where
  "jmul (Fin a) (Fin b) = Fin (a * b)"
| "jmul (Fin a) PInf = (if a = 0 then NaN else if 0 < a then PInf else NInf)"
| "jmul (Fin a) NInf = (if a = 0 then NaN else if 0 < a then NInf else PInf)"
| "jmul PInf (Fin b) = (if b = 0 then NaN else if 0 < b then PInf else NInf)"
| "jmul NInf (Fin b) = (if b = 0 then NaN else if 0 < b then NInf else PInf)"
| "jmul PInf PInf = PInf"
| "jmul PInf NInf = NInf"
| "jmul NInf PInf = NInf"
| "jmul NInf NInf = PInf"
| "jmul NaN b = NaN"
| "jmul a NaN = NaN"

fun jdiv :: "jsnum \<Rightarrow> jsnum \<Rightarrow> jsnum" where
  "jdiv (Fin a) (Fin b) =
     (if b \<noteq> 0 then Fin (a / b)
      else if 0 < a then PInf else if a < 0 then NInf else NaN)"
| "jdiv (Fin a) PInf = Fin 0"
| "jdiv (Fin a) NInf = Fin 0"
| "jdiv PInf (Fin b) = (if 0 \<le> b then PInf else NInf)"
| "jdiv NInf (Fin b) = (if 0 \<le> b then NInf else PInf)"
| "jdiv PInf PInf = NaN"
| "jdiv PInf NInf = NaN"
| "jdiv NInf PInf = NaN"
| "jdiv NInf NInf = NaN"
| "jdiv NaN b = NaN"
| "jdiv a NaN = NaN"

text \<open>The comparisons \<open><\<close> and \<open>>\<close>: false as soon as one side is NaN.\<close>

fun jless :: "jsnum \<Rightarrow> jsnum \<Rightarrow> bool" where
  "jless (Fin a) (Fin b) = (a < b)"
| "jless (Fin a) PInf = True"
| "jless NInf (Fin b) = True"
| "jless NInf PInf = True"
| "jless a b = False"

definition jgreater :: "jsnum \<Rightarrow> jsnum \<Rightarrow> bool" where
  "jgreater a b = jless b a"

fun Math_abs :: "jsnum \<Rightarrow> jsnum" where
  "Math_abs (Fin a) = Fin \<bar>a\<bar>"
| "Math_abs PInf = PInf"
| "Math_abs NInf = PInf"
| "Math_abs NaN = NaN"

fun Math_sqrt :: "jsnum \<Rightarrow> jsnum" where
  "Math_sqrt (Fin a) = (if a < 0 then NaN else Fin (sqrt a))"
| "Math_sqrt PInf = PInf"
| "Math_sqrt NInf = NaN"
| "Math_sqrt NaN = NaN"

text \<open>\<open>Math.pow(x, 2)\<close>, the only power the code takes.\<close>

definition Math_pow2 :: "jsnum \<Rightarrow> jsnum" where
  "Math_pow2 a = jmul a a"

fun Math_atan :: "jsnum \<Rightarrow> jsnum" where
  "Math_atan (Fin a) = Fin (arctan a)"
| "Math_atan PInf = Fin (pi / 2)"
| "Math_atan NInf = Fin (- (pi / 2))"
| "Math_atan NaN = NaN"

text \<open>\<open>Math.min\<close> and \<open>Math.max\<close> of two arguments: NaN when either is NaN.\<close>

fun Math_min :: "jsnum \<Rightarrow> jsnum \<Rightarrow> jsnum" where
  "Math_min NaN b = NaN"
| "Math_min a NaN = NaN"
| "Math_min a b = (if jless b a then b else a)"

fun Math_max :: "jsnum \<Rightarrow> jsnum \<Rightarrow> jsnum" where
  "Math_max NaN b = NaN"
| "Math_max a NaN = NaN"
| "Math_max a b = (if jless a b then b else a)"

section \<open>Landmarks and the pose and eye-aspect-ratio helpers (lib/utils.ts)\<close>

text \<open>
  An entry of the landmark array is either falsy (\<open>undefined\<close>, \<open>null\<close>: \<open>Absent\<close>) or a
  MediaPipe point with its \<open>x\<close> and \<open>y\<close> coordinates; a coordinate that is not there
  reads as \<open>undefined\<close>, which arithmetic turns into NaN. Reading \<open>.x\<close> of a falsy entry
  throws a TypeError: the result \<open>None\<close> of the functions below.
\<close>

datatype landmark = Absent | Point jsnum jsnum

fun truthy :: "landmark \<Rightarrow> bool" where
  "truthy Absent = False"
| "truthy (Point a b) = True"

fun prop_x :: "landmark \<Rightarrow> jsnum option" where
  "prop_x Absent = None"
| "prop_x (Point a b) = Some a"

fun prop_y :: "landmark \<Rightarrow> jsnum option" where
  "prop_y Absent = None"
| "prop_y (Point a b) = Some b"

text \<open>\<open>landmarks[i]\<close>: an index past the end reads \<open>undefined\<close>.\<close>

definition idx :: "landmark list \<Rightarrow> nat \<Rightarrow> landmark" where
  "idx lms i = (if i < length lms then lms ! i else Absent)"

record HeadPose =
  pitch :: jsnum
  yaw :: jsnum
  roll :: jsnum

text \<open>
  \<open>calculateEAR\<close> is only ever handed the result of a \<open>filter\<close>, an array, so of its guard
  \<open>!eyeLandmarks || eyeLandmarks.length < 6\<close> the length test is the one that can fire.
\<close>

definition calculateEAR :: "landmark list \<Rightarrow> jsnum option" where
  "calculateEAR eyeLandmarks =
     (if length eyeLandmarks < 6 then Some (Fin 0)
      else do {
        x1 \<leftarrow> prop_x (idx eyeLandmarks 1); x5 \<leftarrow> prop_x (idx eyeLandmarks 5);
        y1 \<leftarrow> prop_y (idx eyeLandmarks 1); y5 \<leftarrow> prop_y (idx eyeLandmarks 5);
        let vertical1 = Math_sqrt (jadd (Math_pow2 (jsub x1 x5)) (Math_pow2 (jsub y1 y5)));
        x2 \<leftarrow> prop_x (idx eyeLandmarks 2); x4 \<leftarrow> prop_x (idx eyeLandmarks 4);
        y2 \<leftarrow> prop_y (idx eyeLandmarks 2); y4 \<leftarrow> prop_y (idx eyeLandmarks 4);
        let vertical2 = Math_sqrt (jadd (Math_pow2 (jsub x2 x4)) (Math_pow2 (jsub y2 y4)));
        x0 \<leftarrow> prop_x (idx eyeLandmarks 0); x3 \<leftarrow> prop_x (idx eyeLandmarks 3);
        y0 \<leftarrow> prop_y (idx eyeLandmarks 0); y3 \<leftarrow> prop_y (idx eyeLandmarks 3);
        let horizontal = Math_sqrt (jadd (Math_pow2 (jsub x0 x3)) (Math_pow2 (jsub y0 y3)));
        let ear = jdiv (jadd vertical1 vertical2) (jmul (Fin 2) horizontal);
        Some ear
      })"

definition zeroPose :: HeadPose where
  "zeroPose = \<lparr>pitch = Fin 0, yaw = Fin 0, roll = Fin 0\<rparr>"

definition calculateHeadPose :: "landmark list \<Rightarrow> HeadPose option" where
  "calculateHeadPose lms =
     (if lms = [] then Some zeroPose
      else
        let nose = idx lms 1; leftEye = idx lms 33; rightEye = idx lms 263;
            chin = idx lms 175; forehead = idx lms 10
        in
        if \<not> truthy nose \<or> \<not> truthy leftEye \<or> \<not> truthy rightEye
             \<or> \<not> truthy chin \<or> \<not> truthy forehead
        then Some zeroPose
        else do {
          leftEye_x \<leftarrow> prop_x leftEye; rightEye_x \<leftarrow> prop_x rightEye;
          let eyeDistance = Math_abs (jsub leftEye_x rightEye_x);
          nose_x \<leftarrow> prop_x nose;
          let noseToLeftEye = Math_abs (jsub nose_x leftEye_x);
          let noseToRightEye = Math_abs (jsub nose_x rightEye_x);
          let yaw0 = (if jgreater eyeDistance (Fin 0)
                      then jmul (jdiv (jsub noseToRightEye noseToLeftEye) eyeDistance) (Fin 45)
                      else Fin 0);
          forehead_y \<leftarrow> prop_y forehead; chin_y \<leftarrow> prop_y chin;
          let verticalDistance = Math_abs (jsub forehead_y chin_y);
          nose_y \<leftarrow> prop_y nose;
          let noseVerticalPosition = jdiv (jsub nose_y forehead_y) verticalDistance;
          let pitch0 = jmul (jsub noseVerticalPosition (Fin 0.4)) (Fin 90);
          rightEye_y \<leftarrow> prop_y rightEye; leftEye_y \<leftarrow> prop_y leftEye;
          let eyeSlope = jdiv (jsub rightEye_y leftEye_y) (jsub rightEye_x leftEye_x);
          let roll0 = jmul (Math_atan eyeSlope) (Fin (180 / pi));
          Some \<lparr>pitch = Math_max (Fin (- 90)) (Math_min (Fin 90) pitch0),
                yaw = Math_max (Fin (- 90)) (Math_min (Fin 90) yaw0),
                roll = Math_max (Fin (- 45)) (Math_min (Fin 45) roll0)\<rparr>
        })"

section \<open>The focus-state detector (class AIStateDetector)\<close>

datatype FocusState = focused | distracted | relaxing | drowsy | unknown

record AIDetectionResult =
  state :: FocusState
  confidence :: jsnum
  headPose :: HeadPose
  eyeAspectRatio :: jsnum
  landmarks :: "landmark list option"

text \<open>
  The fields of an instance. The six thresholds are \<open>readonly\<close> fields set by their
  initialisers; the times are the integer milliseconds of \<open>Date.now()\<close>. The map
  \<open>stateTimers\<close> is kept as the list of its entries.
\<close>

record AIStateDetector =
  currentState :: FocusState
  stateStartTime :: int
  stateTimers :: "(FocusState \<times> int) list"
  DROWSY_EAR_THRESHOLD :: real
  DROWSY_TIME_THRESHOLD :: int
  DISTRACTION_PITCH_THRESHOLD :: real
  DISTRACTION_TIME_THRESHOLD :: int
  RELAXING_YAW_THRESHOLD :: real
  RELAXING_TIME_THRESHOLD :: int

definition resetTimers :: "int \<Rightarrow> AIStateDetector \<Rightarrow> AIStateDetector" where
  "resetTimers now d = d\<lparr>stateTimers := [], stateStartTime := now\<rparr>"

text \<open>\<open>new AIStateDetector()\<close> at time \<open>now\<close>: the field initialisers, then the constructor body.\<close>

definition new_AIStateDetector :: "int \<Rightarrow> AIStateDetector" where
  "new_AIStateDetector now =
     resetTimers now
       \<lparr>currentState = unknown, stateStartTime = 0, stateTimers = [],
        DROWSY_EAR_THRESHOLD = 0.25, DROWSY_TIME_THRESHOLD = 25000,
        DISTRACTION_PITCH_THRESHOLD = 20, DISTRACTION_TIME_THRESHOLD = 15000,
        RELAXING_YAW_THRESHOLD = 30, RELAXING_TIME_THRESHOLD = 30000\<rparr>"

definition determineImmediateState :: "AIStateDetector \<Rightarrow> HeadPose \<Rightarrow> jsnum \<Rightarrow> FocusState" where
  "determineImmediateState d hp ear =
     (if jless ear (Fin (DROWSY_EAR_THRESHOLD d)) then drowsy
      else if jgreater (pitch hp) (Fin (DISTRACTION_PITCH_THRESHOLD d)) then distracted
      else if jgreater (Math_abs (yaw hp)) (Fin (RELAXING_YAW_THRESHOLD d))
              \<or> jless (pitch hp) (Fin (- 15)) then relaxing
      else focused)"

definition getPreviousValidState :: "AIStateDetector \<Rightarrow> FocusState" where
  "getPreviousValidState d = focused"

text \<open>\<open>applyTimeBasedLogic\<close> reads the clock once; \<open>now\<close> is that reading.\<close>

definition applyTimeBasedLogic ::
  "int \<Rightarrow> FocusState \<Rightarrow> AIStateDetector \<Rightarrow> FocusState \<times> AIStateDetector" where
  "applyTimeBasedLogic now immediateState d =
     (let currentTime = now;
          d1 = (if immediateState \<noteq> currentState d
                then d\<lparr>stateStartTime := currentTime, currentState := immediateState\<rparr>
                else d);
          stateTime = currentTime - stateStartTime d1
      in (case immediateState of
            drowsy \<Rightarrow>
              (if stateTime \<ge> DROWSY_TIME_THRESHOLD d1 then drowsy else getPreviousValidState d1)
          | distracted \<Rightarrow>
              (if stateTime \<ge> DISTRACTION_TIME_THRESHOLD d1 then distracted
               else getPreviousValidState d1)
          | relaxing \<Rightarrow>
              (if stateTime \<ge> RELAXING_TIME_THRESHOLD d1 then relaxing
               else getPreviousValidState d1)
          | focused \<Rightarrow> focused
          | unknown \<Rightarrow> unknown,
          d1))"

definition calculateConfidence ::
  "AIStateDetector \<Rightarrow> HeadPose \<Rightarrow> jsnum \<Rightarrow> FocusState \<Rightarrow> jsnum" where
  "calculateConfidence d hp ear st =
     (let confidence =
        (case st of
           drowsy \<Rightarrow>
             Math_max (Fin 0.1) (jsub (Fin 1) (jdiv ear (Fin (DROWSY_EAR_THRESHOLD d))))
         | distracted \<Rightarrow>
             (let pitchFactor = Math_min (jdiv (pitch hp) (Fin 45)) (Fin 1)
              in Math_max (Fin 0.3) pitchFactor)
         | relaxing \<Rightarrow>
             (let yawFactor = Math_min (jdiv (Math_abs (yaw hp)) (Fin 60)) (Fin 1)
              in Math_max (Fin 0.3) yawFactor)
         | focused \<Rightarrow>
             (let pitchScore = jsub (Fin 1) (jdiv (Math_abs (pitch hp)) (Fin 45));
                  yawScore = jsub (Fin 1) (jdiv (Math_abs (yaw hp)) (Fin 60));
                  earScore = (if jgreater ear (Fin (DROWSY_EAR_THRESHOLD d)) then Fin 1 else Fin 0)
              in jdiv (jadd (jadd pitchScore yawScore) earScore) (Fin 3))
         | unknown \<Rightarrow> Fin 0.1)
      in Math_max (Fin 0.1) (Math_min (Fin 1.0) confidence))"

definition leftEyeIndices :: "nat list" where
  "leftEyeIndices = [33, 7, 163, 144, 145, 153]"

definition rightEyeIndices :: "nat list" where
  "rightEyeIndices = [362, 382, 381, 380, 374, 373]"

text \<open>
  \<open>analyzeFaceLandmarks\<close> at clock reading \<open>now\<close>. The argument \<open>None\<close> is a \<open>null\<close> or
  \<open>undefined\<close> array. The result \<open>None\<close> is a thrown error; otherwise the returned
  object comes with the detector as the call leaves it.
\<close>

definition analyzeFaceLandmarks ::
  "int \<Rightarrow> landmark list option \<Rightarrow> AIStateDetector
     \<Rightarrow> (AIDetectionResult \<times> AIStateDetector) option" where
  "analyzeFaceLandmarks now arg d =
     (case arg of
        None \<Rightarrow>
          Some (\<lparr>state = unknown, confidence = Fin 0, headPose = zeroPose,
                 eyeAspectRatio = Fin 0, landmarks = None\<rparr>, d)
      | Some lms \<Rightarrow>
          if length lms = 0
          then Some (\<lparr>state = unknown, confidence = Fin 0, headPose = zeroPose,
                      eyeAspectRatio = Fin 0, landmarks = None\<rparr>, d)
          else do {
            hp \<leftarrow> calculateHeadPose lms;
            let leftEyeLandmarks = filter truthy (map (idx lms) leftEyeIndices);
            let rightEyeLandmarks = filter truthy (map (idx lms) rightEyeIndices);
            leftEAR \<leftarrow> calculateEAR leftEyeLandmarks;
            rightEAR \<leftarrow> calculateEAR rightEyeLandmarks;
            let avgEAR = jdiv (jadd leftEAR rightEAR) (Fin 2);
            let immediateState = determineImmediateState d hp avgEAR;
            let (finalState, d1) = applyTimeBasedLogic now immediateState d;
            let confidence = calculateConfidence d1 hp avgEAR immediateState;
            Some (\<lparr>state = finalState, confidence = confidence, headPose = hp,
                   eyeAspectRatio = avgEAR, landmarks = Some lms\<rparr>, d1)
          })"

definition getCurrentState :: "AIStateDetector \<Rightarrow> FocusState" where
  "getCurrentState d = currentState d"

definition reset :: "int \<Rightarrow> AIStateDetector \<Rightarrow> AIStateDetector" where
  "reset now d = resetTimers now (d\<lparr>currentState := unknown\<rparr>)"

section \<open>Auxiliary notions for stating the properties\<close>

text \<open>
  The measurement stage of \<open>analyzeFaceLandmarks\<close> on a non-empty array: the head pose
  and the average of the two eye aspect ratios.
\<close>

definition measurement :: "landmark list \<Rightarrow> (HeadPose \<times> jsnum) option" where
  "measurement lms =
     do {
       hp \<leftarrow> calculateHeadPose lms;
       leftEAR \<leftarrow> calculateEAR (filter truthy (map (idx lms) leftEyeIndices));
       rightEAR \<leftarrow> calculateEAR (filter truthy (map (idx lms) rightEyeIndices));
       Some (hp, jdiv (jadd leftEAR rightEAR) (Fin 2))
     }"

text \<open>
  The candidate of a call: what the immediate-state rule yields on the measurement. A call
  with a missing or empty array returns before the rule and has no candidate.
\<close>

definition candidate :: "AIStateDetector \<Rightarrow> landmark list option \<Rightarrow> FocusState option" where
  "candidate d arg =
     (case arg of
        None \<Rightarrow> None
      | Some lms \<Rightarrow>
          if lms = [] then None
          else map_option (\<lambda>(hp, ear). determineImmediateState d hp ear) (measurement lms))"

text \<open>The hold duration that \<open>applyTimeBasedLogic\<close> compares against for each candidate.\<close>

definition holdMs :: "AIStateDetector \<Rightarrow> FocusState \<Rightarrow> int" where
  "holdMs d c =
     (case c of
        drowsy \<Rightarrow> DROWSY_TIME_THRESHOLD d
      | distracted \<Rightarrow> DISTRACTION_TIME_THRESHOLD d
      | relaxing \<Rightarrow> RELAXING_TIME_THRESHOLD d
      | focused \<Rightarrow> 0
      | unknown \<Rightarrow> 0)"

text \<open>
  A sequence of calls, each with its clock reading; the outcome lists, call by call, the
  returned object and the detector after the call.
\<close>

fun analyzeAll ::
  "AIStateDetector \<Rightarrow> (int \<times> landmark list option) list
     \<Rightarrow> (AIDetectionResult \<times> AIStateDetector) list option" where
  "analyzeAll d [] = Some []"
| "analyzeAll d ((now, arg) # calls) =
     do {
       (r, d1) \<leftarrow> analyzeFaceLandmarks now arg d;
       rest \<leftarrow> analyzeAll d1 calls;
       Some ((r, d1) # rest)
     }"

text \<open>The detectors that a history of public calls on a new instance can produce.\<close>

inductive reachable :: "AIStateDetector \<Rightarrow> bool" where
  constructed: "reachable (new_AIStateDetector now)"
| analyzed: "reachable d \<Longrightarrow> analyzeFaceLandmarks now arg d = Some (r, d1) \<Longrightarrow> reachable d1"
| was_reset: "reachable d \<Longrightarrow> reachable (reset now d)"

text \<open>A confidence inside the interval from 0.1 to 1.0.\<close>

fun confidenceInRange :: "jsnum \<Rightarrow> bool" where
  "confidenceInRange (Fin c) = (0.1 \<le> c \<and> c \<le> 1)"
| "confidenceInRange PInf = False"
| "confidenceInRange NInf = False"
| "confidenceInRange NaN = False"

text \<open>
  The confidence as the specification words it, from its drowsy threshold, the measurement
  and a state: the per-state value (\<open>max(0.1, 1 - EAR/threshold)\<close> for drowsy,
  \<open>max(0.3, min(pitch/45, 1))\<close> for distracted, \<open>max(0.3, min(|yaw|/60, 1))\<close> for
  relaxing, the average of the three neutrality scores for focused, 0.1 for unknown),
  clamped to the interval from 0.1 to 1.0.
\<close>

definition specConfidence :: "real \<Rightarrow> HeadPose \<Rightarrow> jsnum \<Rightarrow> FocusState \<Rightarrow> jsnum" where
  "specConfidence drowsyEarThreshold hp ear st =
     Math_max (Fin 0.1) (Math_min (Fin 1.0)
       (case st of
          drowsy \<Rightarrow> Math_max (Fin 0.1) (jsub (Fin 1) (jdiv ear (Fin drowsyEarThreshold)))
        | distracted \<Rightarrow> Math_max (Fin 0.3) (Math_min (jdiv (pitch hp) (Fin 45)) (Fin 1))
        | relaxing \<Rightarrow> Math_max (Fin 0.3) (Math_min (jdiv (Math_abs (yaw hp)) (Fin 60)) (Fin 1))
        | focused \<Rightarrow>
            jdiv (jadd (jadd (jsub (Fin 1) (jdiv (Math_abs (pitch hp)) (Fin 45)))
                             (jsub (Fin 1) (jdiv (Math_abs (yaw hp)) (Fin 60))))
                       (if jgreater ear (Fin drowsyEarThreshold) then Fin 1 else Fin 0))
                 (Fin 3)
        | unknown \<Rightarrow> Fin 0.1))"

text \<open>
  A coarse face of 468 landmarks, looking straight ahead with open eyes: the corners of
  each eye two units apart and its lids one unit apart, the nose midway between the outer
  eye corners and four tenths of the way from forehead to chin. The entries that the
  detector does not read are at the origin.
\<close>

definition neutralFace :: "landmark list" where
  "neutralFace = (replicate 468 (Point (Fin 0) (Fin 0)))
     [1 := Point (Fin 3) (Fin 2), 10 := Point (Fin 3) (Fin (- 2)), 175 := Point (Fin 3) (Fin 8),
      263 := Point (Fin 6) (Fin 0),
      144 := Point (Fin 2) (Fin 0), 7 := Point (Fin 1) (Fin 1), 153 := Point (Fin 1) (Fin 0),
      163 := Point (Fin 1) (Fin 1), 145 := Point (Fin 1) (Fin 0),
      362 := Point (Fin 4) (Fin 0), 380 := Point (Fin 6) (Fin 0), 382 := Point (Fin 5) (Fin 1),
      373 := Point (Fin 5) (Fin 0), 381 := Point (Fin 5) (Fin 1), 374 := Point (Fin 5) (Fin 0)]"

text \<open>The same face with the lids shut: each lid point on the line of the eye corners.\<close>

definition closedEyesFace :: "landmark list" where
  "closedEyesFace = neutralFace
     [7 := Point (Fin 1) (Fin 0), 163 := Point (Fin 1) (Fin 0),
      382 := Point (Fin 5) (Fin 0), 381 := Point (Fin 5) (Fin 0)]"

section \<open>The measurement stage never throws\<close>

lemma truthy_Point: "truthy l \<Longrightarrow> \<exists>a b. l = Point a b"
  by (cases l) auto

lemma idx_truthy: "\<forall>l \<in> set e. truthy l \<Longrightarrow> i < length e \<Longrightarrow> \<exists>a b. idx e i = Point a b"
  by (simp add: idx_def truthy_Point)

lemma calculateEAR_total:
  assumes "\<forall>l \<in> set e. truthy l"
  shows "\<exists>v. calculateEAR e = Some v"
proof (cases "length e < 6")
  case True
  then show ?thesis by (simp add: calculateEAR_def)
next
  case False
  then have len: "0 < length e" "1 < length e" "2 < length e" "3 < length e" "4 < length e" "5 < length e"
    by auto
  from len(1) assms obtain a0 b0 where p0: "idx e 0 = Point a0 b0" using idx_truthy by blast
  from len(2) assms obtain a1 b1 where p1: "idx e 1 = Point a1 b1" using idx_truthy by blast
  from len(3) assms obtain a2 b2 where p2: "idx e 2 = Point a2 b2" using idx_truthy by blast
  from len(4) assms obtain a3 b3 where p3: "idx e 3 = Point a3 b3" using idx_truthy by blast
  from len(5) assms obtain a4 b4 where p4: "idx e 4 = Point a4 b4" using idx_truthy by blast
  from len(6) assms obtain a5 b5 where p5: "idx e 5 = Point a5 b5" using idx_truthy by blast
  from p1 have p1': "idx e (Suc 0) = Point a1 b1" by simp
  show ?thesis using False by (simp add: calculateEAR_def p0 p1' p2 p3 p4 p5 Let_def)
qed

lemma calculateHeadPose_total: "\<exists>hp. calculateHeadPose lms = Some hp"
proof -
  let ?ok = "truthy (idx lms 1) \<and> truthy (idx lms 33) \<and> truthy (idx lms 263)
      \<and> truthy (idx lms 175) \<and> truthy (idx lms 10)"
  show ?thesis
  proof (cases "lms \<noteq> [] \<and> ?ok")
    case False
    then show ?thesis by (auto simp add: calculateHeadPose_def Let_def)
  next
    case True
    then obtain a1 b1 a2 b2 a3 b3 a4 b4 a5 b5 where
      "idx lms 1 = Point a1 b1" "idx lms 33 = Point a2 b2" "idx lms 263 = Point a3 b3"
      "idx lms 175 = Point a4 b4" "idx lms 10 = Point a5 b5"
      by (meson truthy_Point)
    then show ?thesis by (simp add: calculateHeadPose_def Let_def)
  qed
qed

lemma measurement_total: "\<exists>hp ear. measurement lms = Some (hp, ear)"
proof -
  obtain hp where h: "calculateHeadPose lms = Some hp" using calculateHeadPose_total by blast
  obtain l where l: "calculateEAR (filter truthy (map (idx lms) leftEyeIndices)) = Some l"
    using calculateEAR_total[of "filter truthy (map (idx lms) leftEyeIndices)"] by auto
  obtain r where r: "calculateEAR (filter truthy (map (idx lms) rightEyeIndices)) = Some r"
    using calculateEAR_total[of "filter truthy (map (idx lms) rightEyeIndices)"] by auto
  show ?thesis by (simp add: measurement_def h l r)
qed

lemma analyze_measurement:
  "lms \<noteq> [] \<Longrightarrow> measurement lms = Some (hp, ear) \<Longrightarrow>
   analyzeFaceLandmarks now (Some lms) d =
     Some (\<lparr>state = fst (applyTimeBasedLogic now (determineImmediateState d hp ear) d),
            confidence = calculateConfidence (snd (applyTimeBasedLogic now (determineImmediateState d hp ear) d)) hp ear (determineImmediateState d hp ear),
            headPose = hp, eyeAspectRatio = ear, landmarks = Some lms\<rparr>,
           snd (applyTimeBasedLogic now (determineImmediateState d hp ear) d))"
  by (auto simp add: analyzeFaceLandmarks_def measurement_def Let_def split: Option.bind_splits prod.splits)

section \<open>One call, step by step\<close>

lemma new_simps:
  "currentState (new_AIStateDetector t) = unknown"
  "stateStartTime (new_AIStateDetector t) = t"
  "stateTimers (new_AIStateDetector t) = []"
  "DROWSY_EAR_THRESHOLD (new_AIStateDetector t) = 0.25"
  "DROWSY_TIME_THRESHOLD (new_AIStateDetector t) = 25000"
  "DISTRACTION_PITCH_THRESHOLD (new_AIStateDetector t) = 20"
  "DISTRACTION_TIME_THRESHOLD (new_AIStateDetector t) = 15000"
  "RELAXING_YAW_THRESHOLD (new_AIStateDetector t) = 30"
  "RELAXING_TIME_THRESHOLD (new_AIStateDetector t) = 30000"
  by (simp_all add: new_AIStateDetector_def resetTimers_def)

lemma determineImmediateState_not_unknown: "determineImmediateState d hp ear \<noteq> unknown"
  by (simp add: determineImmediateState_def)

lemma candidate_not_unknown: "candidate d arg \<noteq> Some unknown"
  by (auto simp add: candidate_def determineImmediateState_not_unknown split: option.splits)

lemma snd_applyTimeBasedLogic:
  "snd (applyTimeBasedLogic now c d) =
     (if c \<noteq> currentState d then d\<lparr>stateStartTime := now, currentState := c\<rparr> else d)"
  by (simp add: applyTimeBasedLogic_def Let_def)

lemma fst_applyTimeBasedLogic:
  "c \<noteq> unknown \<Longrightarrow> fst (applyTimeBasedLogic now c d) =
     (if c = focused \<or> holdMs d c \<le> now - stateStartTime (snd (applyTimeBasedLogic now c d))
      then c else focused)"
  by (cases c) (simp_all add: applyTimeBasedLogic_def Let_def holdMs_def getPreviousValidState_def)

lemma analyze_None:
  "analyzeFaceLandmarks now None d =
     Some (\<lparr>state = unknown, confidence = Fin 0, headPose = zeroPose,
            eyeAspectRatio = Fin 0, landmarks = None\<rparr>, d)"
  by (simp add: analyzeFaceLandmarks_def)

lemma analyze_empty:
  assumes "candidate d arg = None"
  shows "analyzeFaceLandmarks now arg d =
     Some (\<lparr>state = unknown, confidence = Fin 0, headPose = zeroPose,
            eyeAspectRatio = Fin 0, landmarks = None\<rparr>, d)"
proof (cases arg)
  case None
  then show ?thesis by (simp add: analyzeFaceLandmarks_def)
next
  case (Some lms)
  obtain hp ear where "measurement lms = Some (hp, ear)" using measurement_total by blast
  with Some assms have "lms = []" by (simp add: candidate_def split: if_splits)
  with Some show ?thesis by (simp add: analyzeFaceLandmarks_def)
qed

lemma analyze_candidate:
  assumes "candidate d arg = Some c"
  shows "\<exists>lms hp ear. arg = Some lms \<and> lms \<noteq> [] \<and> measurement lms = Some (hp, ear)
           \<and> c = determineImmediateState d hp ear
           \<and> analyzeFaceLandmarks now arg d =
               Some (\<lparr>state = fst (applyTimeBasedLogic now c d),
                      confidence = calculateConfidence (snd (applyTimeBasedLogic now c d)) hp ear c,
                      headPose = hp, eyeAspectRatio = ear, landmarks = Some lms\<rparr>,
                     snd (applyTimeBasedLogic now c d))"
proof -
  from assms obtain lms where a: "arg = Some lms" "lms \<noteq> []"
    by (auto simp add: candidate_def split: option.splits if_splits)
  with assms obtain hp ear where m: "measurement lms = Some (hp, ear)"
    "c = determineImmediateState d hp ear"
    by (auto simp add: candidate_def)
  show ?thesis using a m analyze_measurement[OF a(2) m(1), of now d] by simp
qed

lemma determineImmediateState_update:
  "determineImmediateState (d\<lparr>stateStartTime := now, currentState := c\<rparr>) = determineImmediateState d"
  by (simp add: fun_eq_iff determineImmediateState_def)

lemma candidate_update:
  "candidate (d\<lparr>stateStartTime := now, currentState := c\<rparr>) arg = candidate d arg"
  by (simp add: candidate_def determineImmediateState_update split: option.splits)

lemma holdMs_update:
  "holdMs (d\<lparr>stateStartTime := now, currentState := c\<rparr>) = holdMs d"
  by (simp add: fun_eq_iff holdMs_def split: FocusState.splits)

lemma analyzeFaceLandmarks_Some:
  "\<exists>r d1. analyzeFaceLandmarks now arg d = Some (r, d1)"
proof (cases "candidate d arg")
  case None
  then show ?thesis using analyze_empty by blast
next
  case (Some c)
  then show ?thesis using analyze_candidate[OF Some, of now] by blast
qed

lemma analyze_frame:
  assumes "analyzeFaceLandmarks now arg d = Some (r, d1)"
  shows "d1 = d\<lparr>currentState := currentState d1, stateStartTime := stateStartTime d1\<rparr>"
proof (cases "candidate d arg")
  case None
  then show ?thesis using analyze_empty[OF None, of now] assms by simp
next
  case (Some c)
  then show ?thesis using analyze_candidate[OF Some, of now] assms
    by (auto simp add: snd_applyTimeBasedLogic)
qed

lemma analyze_currentState:
  assumes "analyzeFaceLandmarks now arg d = Some (r, d1)"
  shows "currentState d1 = (case candidate d arg of None \<Rightarrow> currentState d | Some c \<Rightarrow> c)"
proof (cases "candidate d arg")
  case None
  then show ?thesis using analyze_empty[OF None, of now] assms by simp
next
  case (Some c)
  then show ?thesis using analyze_candidate[OF Some, of now] assms
    by (auto simp add: snd_applyTimeBasedLogic)
qed

lemma analyze_stateStartTime:
  assumes "analyzeFaceLandmarks now arg d = Some (r, d1)"
  shows "stateStartTime d1 =
     (case candidate d arg of
        None \<Rightarrow> stateStartTime d
      | Some c \<Rightarrow> if c \<noteq> currentState d then now else stateStartTime d)"
proof (cases "candidate d arg")
  case None
  then show ?thesis using analyze_empty[OF None, of now] assms by simp
next
  case (Some c)
  then show ?thesis using analyze_candidate[OF Some, of now] assms
    by (auto simp add: snd_applyTimeBasedLogic)
qed

lemma analyze_state:
  assumes "analyzeFaceLandmarks now arg d = Some (r, d1)" and "candidate d arg = Some c"
  shows "state r = (if c = focused \<or> holdMs d c \<le> now - stateStartTime d1 then c else focused)"
proof -
  have "c \<noteq> unknown" using assms(2) candidate_not_unknown by metis
  then show ?thesis
    using analyze_candidate[OF assms(2), of now] assms(1) fst_applyTimeBasedLogic[of c now d]
    by auto
qed

lemma analyze_same_candidate:
  assumes "candidate d arg = Some (currentState d)"
  shows "\<exists>r. analyzeFaceLandmarks now arg d = Some (r, d)
           \<and> state r = (if currentState d = focused
                            \<or> holdMs d (currentState d) \<le> now - stateStartTime d
                         then currentState d else focused)"
proof -
  obtain r d1 where a: "analyzeFaceLandmarks now arg d = Some (r, d1)"
    using analyzeFaceLandmarks_Some by blast
  have "d1 = d" using analyze_candidate[OF assms, of now] a
    by (auto simp add: snd_applyTimeBasedLogic)
  with a analyze_state[OF a assms] show ?thesis by simp
qed

lemma analyze_new_candidate:
  assumes "candidate d arg = Some c" and "c \<noteq> currentState d"
  shows "\<exists>r. analyzeFaceLandmarks now arg d =
                Some (r, d\<lparr>stateStartTime := now, currentState := c\<rparr>)
           \<and> state r = (if c = focused \<or> holdMs d c \<le> 0 then c else focused)"
proof -
  obtain r d1 where a: "analyzeFaceLandmarks now arg d = Some (r, d1)"
    using analyzeFaceLandmarks_Some by blast
  have "d1 = d\<lparr>stateStartTime := now, currentState := c\<rparr>"
    using analyze_candidate[OF assms(1), of now] a assms(2)
    by (auto simp add: snd_applyTimeBasedLogic)
  with a analyze_state[OF a assms(1)] show ?thesis by simp
qed

lemma calculateConfidence_spec:
  "calculateConfidence d hp ear st = specConfidence (DROWSY_EAR_THRESHOLD d) hp ear st"
  by (simp add: calculateConfidence_def specConfidence_def Let_def split: FocusState.splits)

lemma calculateConfidence_update:
  "calculateConfidence (d\<lparr>stateStartTime := now, currentState := c\<rparr>) hp ear st
     = calculateConfidence d hp ear st"
  by (simp add: calculateConfidence_spec)

lemma analyze_confidence:
  assumes "analyzeFaceLandmarks now arg d = Some (r, d1)" and "candidate d arg = Some c"
  shows "confidence r = calculateConfidence d (headPose r) (eyeAspectRatio r) c
     \<and> c = determineImmediateState d (headPose r) (eyeAspectRatio r)"
  using analyze_candidate[OF assms(2), of now] assms(1)
  by (auto simp add: snd_applyTimeBasedLogic calculateConfidence_update)

section \<open>Sequences of calls\<close>

lemma analyzeAll_total: "\<exists>out. analyzeAll d calls = Some out \<and> length out = length calls"
proof (induction calls arbitrary: d)
  case Nil
  then show ?case by simp
next
  case (Cons call calls)
  obtain now arg where c: "call = (now, arg)" by (cases call)
  obtain r d1 where a: "analyzeFaceLandmarks now arg d = Some (r, d1)"
    using analyzeFaceLandmarks_Some by blast
  obtain rest where "analyzeAll d1 calls = Some rest" "length rest = length calls"
    using Cons.IH by blast
  then show ?case by (simp add: c a)
qed

lemma analyzeAll_currentState:
  "currentState d \<noteq> unknown \<Longrightarrow> analyzeAll d calls = Some out \<Longrightarrow>
     \<forall>(r, d1) \<in> set out. currentState d1 \<noteq> unknown"
proof (induction calls arbitrary: d out)
  case Nil
  then show ?case by simp
next
  case (Cons call calls)
  obtain now arg where c: "call = (now, arg)" by (cases call)
  from Cons.prems(2) obtain r d1 rest where
    a: "analyzeFaceLandmarks now arg d = Some (r, d1)" and
    b: "analyzeAll d1 calls = Some rest" and o: "out = (r, d1) # rest"
    by (auto simp add: c split: Option.bind_splits)
  have "currentState d1 \<noteq> unknown"
    using analyze_currentState[OF a] Cons.prems(1) candidate_not_unknown[of d arg]
    by (auto split: option.splits)
  with Cons.IH[OF _ b] o show ?case by simp
qed

lemma analyzeAll_steady:
  assumes "\<forall>(t, arg) \<in> set calls. candidate d arg = Some c"
    and "currentState d = c" and "stateStartTime d = s" and "holdMs d c = h"
  shows "\<exists>out. analyzeAll d calls = Some out
     \<and> map (\<lambda>(r, d1). state r) out =
         map (\<lambda>(t, arg). if c = focused \<or> h \<le> t - s then c else focused) calls
     \<and> map snd out = map (\<lambda>call. d) calls"
  using assms(1)
proof (induction calls)
  case Nil
  then show ?case by simp
next
  case (Cons call calls)
  obtain now arg where c: "call = (now, arg)" by (cases call)
  from Cons.prems c assms(2) have "candidate d arg = Some (currentState d)" by simp
  from analyze_same_candidate[OF this, of now] assms(2,3,4) obtain r where
    a: "analyzeFaceLandmarks now arg d = Some (r, d)" and
    s: "state r = (if c = focused \<or> h \<le> now - s then c else focused)"
    by auto
  from Cons.IH Cons.prems obtain rest where
    b: "analyzeAll d calls = Some rest" and
    m: "map (\<lambda>(r, d1). state r) rest =
         map (\<lambda>(t, arg). if c = focused \<or> h \<le> t - s then c else focused) calls" and
    n: "map snd rest = map (\<lambda>call. d) calls"
    by auto
  show ?case by (simp add: c a b s m n)
qed

lemma analyzeAll_stateStartTime_sorted:
  assumes "sorted (map fst calls)" and "\<forall>t \<in> set (map fst calls). stateStartTime d \<le> t"
  shows "\<exists>out. analyzeAll d calls = Some out \<and> length out = length calls
     \<and> sorted (stateStartTime d # map (\<lambda>(r, d1). stateStartTime d1) out)"
  using assms
proof (induction calls arbitrary: d)
  case Nil
  then show ?case by simp
next
  case (Cons call calls)
  obtain now arg where c: "call = (now, arg)" by (cases call)
  obtain r d1 where a: "analyzeFaceLandmarks now arg d = Some (r, d1)"
    using analyzeFaceLandmarks_Some by blast
  from Cons.prems(2) c have le: "stateStartTime d \<le> now" by simp
  have s1: "stateStartTime d1 = now \<or> stateStartTime d1 = stateStartTime d"
    using analyze_stateStartTime[OF a] by (auto split: option.splits if_splits)
  with le have b1: "stateStartTime d \<le> stateStartTime d1" "stateStartTime d1 \<le> now" by auto
  from Cons.prems(1) c have later: "\<forall>t \<in> set (map fst calls). now \<le> t" "sorted (map fst calls)"
    by auto
  with b1 have "\<forall>t \<in> set (map fst calls). stateStartTime d1 \<le> t" by fastforce
  from Cons.IH[OF later(2) this] obtain rest where
    b: "analyzeAll d1 calls = Some rest" "length rest = length calls"
    "sorted (stateStartTime d1 # map (\<lambda>(r, d1). stateStartTime d1) rest)"
    by blast
  then show ?case using b1 by (auto simp add: c a)
qed

lemma reachable_stateTimers: "reachable d \<Longrightarrow> stateTimers d = []"
proof (induction rule: reachable.induct)
  case (constructed now)
  show ?case by (simp add: new_simps)
next
  case (analyzed d now arg r d1)
  from analyze_frame[OF analyzed.hyps(2)] have "stateTimers d1 = stateTimers d"
    by (metis AIStateDetector.select_convs(3) AIStateDetector.surjective AIStateDetector.update_convs(1,2))
  with analyzed.IH show ?case by simp
next
  case (was_reset d now)
  show ?case by (simp add: reset_def resetTimers_def)
qed

section \<open>When the confidence is a number\<close>

lemma clamp_in_range: "c \<noteq> NaN \<Longrightarrow> confidenceInRange (Math_max (Fin 0.1) (Math_min (Fin 1.0) c))"
  by (cases c) auto

lemma Math_max_NaN: "Math_max a b = NaN \<longleftrightarrow> a = NaN \<or> b = NaN"
  by (cases a; cases b) auto

lemma Math_min_NaN: "Math_min a b = NaN \<longleftrightarrow> a = NaN \<or> b = NaN"
  by (cases a; cases b) auto

lemma Math_abs_NaN: "Math_abs a = NaN \<longleftrightarrow> a = NaN"
  by (cases a) auto

lemma jdiv_pos_NaN: "0 < k \<Longrightarrow> jdiv a (Fin k) = NaN \<longleftrightarrow> a = NaN"
  by (cases a) auto

lemma one_minus_cases: "a \<noteq> NaN \<Longrightarrow> a \<noteq> NInf \<Longrightarrow> (\<exists>x. jsub (Fin 1) a = Fin x) \<or> jsub (Fin 1) a = NInf"
  by (cases a) (auto simp add: jsub_def)

lemma abs_div_cases:
  "0 < k \<Longrightarrow> a \<noteq> NaN \<Longrightarrow> jdiv (Math_abs a) (Fin k) \<noteq> NaN \<and> jdiv (Math_abs a) (Fin k) \<noteq> NInf"
  by (cases a) auto

lemma drowsy_not_NaN:
  "jless ear (Fin t) \<Longrightarrow> jsub (Fin 1) (jdiv ear (Fin t)) \<noteq> NaN"
  by (cases ear) (auto simp add: jsub_def)

lemma focused_not_NaN:
  assumes "pitch hp \<noteq> NaN" and "yaw hp \<noteq> NaN"
  shows "jdiv (jadd (jadd (jsub (Fin 1) (jdiv (Math_abs (pitch hp)) (Fin 45)))
                             (jsub (Fin 1) (jdiv (Math_abs (yaw hp)) (Fin 60))))
                       (if jgreater ear (Fin t) then Fin 1 else Fin 0))
                 (Fin 3) \<noteq> NaN"
proof -
  have p: "(\<exists>x. jsub (Fin 1) (jdiv (Math_abs (pitch hp)) (Fin 45)) = Fin x)
             \<or> jsub (Fin 1) (jdiv (Math_abs (pitch hp)) (Fin 45)) = NInf"
    using abs_div_cases[of 45 "pitch hp"] assms(1) by (intro one_minus_cases) auto
  have y: "(\<exists>x. jsub (Fin 1) (jdiv (Math_abs (yaw hp)) (Fin 60)) = Fin x)
             \<or> jsub (Fin 1) (jdiv (Math_abs (yaw hp)) (Fin 60)) = NInf"
    using abs_div_cases[of 60 "yaw hp"] assms(2) by (intro one_minus_cases) auto
  from p y show ?thesis by auto
qed

lemma confidence_in_range:
  assumes "pitch hp \<noteq> NaN" and "yaw hp \<noteq> NaN"
  shows "confidenceInRange (calculateConfidence d hp ear (determineImmediateState d hp ear))"
proof -
  let ?st = "determineImmediateState d hp ear"
  have "(case ?st of
          drowsy \<Rightarrow> Math_max (Fin 0.1) (jsub (Fin 1) (jdiv ear (Fin (DROWSY_EAR_THRESHOLD d))))
        | distracted \<Rightarrow> Math_max (Fin 0.3) (Math_min (jdiv (pitch hp) (Fin 45)) (Fin 1))
        | relaxing \<Rightarrow> Math_max (Fin 0.3) (Math_min (jdiv (Math_abs (yaw hp)) (Fin 60)) (Fin 1))
        | focused \<Rightarrow>
            jdiv (jadd (jadd (jsub (Fin 1) (jdiv (Math_abs (pitch hp)) (Fin 45)))
                             (jsub (Fin 1) (jdiv (Math_abs (yaw hp)) (Fin 60))))
                       (if jgreater ear (Fin (DROWSY_EAR_THRESHOLD d)) then Fin 1 else Fin 0))
                 (Fin 3)
        | unknown \<Rightarrow> Fin 0.1) \<noteq> NaN"
  proof (cases ?st)
    case focused
    then show ?thesis using focused_not_NaN[OF assms] by simp
  next
    case distracted
    then show ?thesis using assms(1) by (simp add: Math_max_NaN Math_min_NaN jdiv_pos_NaN)
  next
    case relaxing
    then show ?thesis using assms(2)
      by (simp add: Math_max_NaN Math_min_NaN jdiv_pos_NaN Math_abs_NaN)
  next
    case drowsy
    then have "jless ear (Fin (DROWSY_EAR_THRESHOLD d))"
      by (simp add: determineImmediateState_def split: if_splits)
    with drowsy show ?thesis by (simp add: Math_max_NaN drowsy_not_NaN)
  next
    case unknown
    then show ?thesis by simp
  qed
  then show ?thesis
    unfolding calculateConfidence_spec specConfidence_def by (rule clamp_in_range)
qed

lemma drowsy_confidence_value:
  assumes "0 < DROWSY_EAR_THRESHOLD d" and "0 \<le> e" and "e < DROWSY_EAR_THRESHOLD d"
  shows "calculateConfidence d hp (Fin e) drowsy = Fin (max 0.1 (1 - e / DROWSY_EAR_THRESHOLD d))"
proof -
  let ?t = "DROWSY_EAR_THRESHOLD d"
  have "0 \<le> e / ?t" using assms by simp
  then have le: "1 - e / ?t \<le> 1" by simp
  have "jsub (Fin 1) (jdiv (Fin e) (Fin ?t)) = Fin (1 - e / ?t)"
    using assms(1) by (simp add: jsub_def)
  then show ?thesis using le
    by (simp add: calculateConfidence_def max_def)
qed

section \<open>Concrete detectors and landmark arrays\<close>

lemma neutralFace_idx:
  "idx neutralFace (Suc 0) = Point (Fin 3) (Fin 2)"
  "idx neutralFace 10 = Point (Fin 3) (Fin (- 2))"
  "idx neutralFace 175 = Point (Fin 3) (Fin 8)"
  "idx neutralFace 33 = Point (Fin 0) (Fin 0)"
  "idx neutralFace 263 = Point (Fin 6) (Fin 0)"
  "map (idx neutralFace) leftEyeIndices =
     [Point (Fin 0) (Fin 0), Point (Fin 1) (Fin 1), Point (Fin 1) (Fin 1),
      Point (Fin 2) (Fin 0), Point (Fin 1) (Fin 0), Point (Fin 1) (Fin 0)]"
  "map (idx neutralFace) rightEyeIndices =
     [Point (Fin 4) (Fin 0), Point (Fin 5) (Fin 1), Point (Fin 5) (Fin 1),
      Point (Fin 6) (Fin 0), Point (Fin 5) (Fin 0), Point (Fin 5) (Fin 0)]"
  by (simp_all add: idx_def neutralFace_def leftEyeIndices_def rightEyeIndices_def)

lemma neutralFace_nonempty: "neutralFace \<noteq> []"
  by (simp add: neutralFace_def)

lemma calculateHeadPose_neutralFace: "calculateHeadPose neutralFace = Some zeroPose"
  by (simp add: calculateHeadPose_def neutralFace_nonempty neutralFace_idx Let_def jsub_def
      jgreater_def zeroPose_def)

lemma calculateEAR_open_left:
  "calculateEAR [Point (Fin 0) (Fin 0), Point (Fin 1) (Fin 1), Point (Fin 1) (Fin 1),
      Point (Fin 2) (Fin 0), Point (Fin 1) (Fin 0), Point (Fin 1) (Fin 0)] = Some (Fin 0.5)"
  by (simp add: calculateEAR_def idx_def jsub_def Math_pow2_def)

lemma calculateEAR_open_right:
  "calculateEAR [Point (Fin 4) (Fin 0), Point (Fin 5) (Fin 1), Point (Fin 5) (Fin 1),
      Point (Fin 6) (Fin 0), Point (Fin 5) (Fin 0), Point (Fin 5) (Fin 0)] = Some (Fin 0.5)"
  by (simp add: calculateEAR_def idx_def jsub_def Math_pow2_def)

lemma measurement_neutralFace: "measurement neutralFace = Some (zeroPose, Fin 0.5)"
  by (simp add: measurement_def calculateHeadPose_neutralFace neutralFace_idx
      calculateEAR_open_left calculateEAR_open_right)

lemma closedEyesFace_idx:
  "idx closedEyesFace (Suc 0) = Point (Fin 3) (Fin 2)"
  "idx closedEyesFace 10 = Point (Fin 3) (Fin (- 2))"
  "idx closedEyesFace 175 = Point (Fin 3) (Fin 8)"
  "idx closedEyesFace 33 = Point (Fin 0) (Fin 0)"
  "idx closedEyesFace 263 = Point (Fin 6) (Fin 0)"
  "map (idx closedEyesFace) leftEyeIndices =
     [Point (Fin 0) (Fin 0), Point (Fin 1) (Fin 0), Point (Fin 1) (Fin 0),
      Point (Fin 2) (Fin 0), Point (Fin 1) (Fin 0), Point (Fin 1) (Fin 0)]"
  "map (idx closedEyesFace) rightEyeIndices =
     [Point (Fin 4) (Fin 0), Point (Fin 5) (Fin 0), Point (Fin 5) (Fin 0),
      Point (Fin 6) (Fin 0), Point (Fin 5) (Fin 0), Point (Fin 5) (Fin 0)]"
  by (simp_all add: idx_def closedEyesFace_def neutralFace_def leftEyeIndices_def
      rightEyeIndices_def)

lemma closedEyesFace_nonempty: "closedEyesFace \<noteq> []"
  by (simp add: closedEyesFace_def neutralFace_def)

lemma calculateHeadPose_closedEyesFace: "calculateHeadPose closedEyesFace = Some zeroPose"
  by (simp add: calculateHeadPose_def closedEyesFace_nonempty closedEyesFace_idx Let_def jsub_def
      jgreater_def zeroPose_def)

lemma calculateEAR_closed_left:
  "calculateEAR [Point (Fin 0) (Fin 0), Point (Fin 1) (Fin 0), Point (Fin 1) (Fin 0),
      Point (Fin 2) (Fin 0), Point (Fin 1) (Fin 0), Point (Fin 1) (Fin 0)] = Some (Fin 0)"
  by (simp add: calculateEAR_def idx_def jsub_def Math_pow2_def)

lemma calculateEAR_closed_right:
  "calculateEAR [Point (Fin 4) (Fin 0), Point (Fin 5) (Fin 0), Point (Fin 5) (Fin 0),
      Point (Fin 6) (Fin 0), Point (Fin 5) (Fin 0), Point (Fin 5) (Fin 0)] = Some (Fin 0)"
  by (simp add: calculateEAR_def idx_def jsub_def Math_pow2_def)

lemma measurement_closedEyesFace: "measurement closedEyesFace = Some (zeroPose, Fin 0)"
  by (simp add: measurement_def calculateHeadPose_closedEyesFace closedEyesFace_idx
      calculateEAR_closed_left calculateEAR_closed_right)

lemma analyze_eyes_closed:
  assumes "lms \<noteq> []" and "measurement lms = Some (zeroPose, Fin 0)"
    and "0 < DROWSY_EAR_THRESHOLD d"
  shows "analyzeFaceLandmarks now (Some lms) d =
     Some (\<lparr>state = fst (applyTimeBasedLogic now drowsy d), confidence = Fin 1,
            headPose = zeroPose, eyeAspectRatio = Fin 0, landmarks = Some lms\<rparr>,
           snd (applyTimeBasedLogic now drowsy d))"
proof -
  have i: "determineImmediateState d zeroPose (Fin 0) = drowsy"
    using assms(3) by (simp add: determineImmediateState_def)
  have k: "calculateConfidence (snd (applyTimeBasedLogic now drowsy d)) zeroPose (Fin 0) drowsy
             = Fin 1"
    using assms(3) by (simp add: calculateConfidence_def snd_applyTimeBasedLogic jsub_def)
  show ?thesis
    using analyze_measurement[OF assms(1,2), of now d]
    by (simp add: i k)
qed

lemma candidate_closedEyesFace:
  "0 < DROWSY_EAR_THRESHOLD d \<Longrightarrow> candidate d (Some closedEyesFace) = Some drowsy"
  by (simp add: candidate_def closedEyesFace_nonempty measurement_closedEyesFace
      determineImmediateState_def)

lemma analyze_closedEyesFace:
  "0 < DROWSY_EAR_THRESHOLD d \<Longrightarrow>
   analyzeFaceLandmarks now (Some closedEyesFace) d =
     Some (\<lparr>state = fst (applyTimeBasedLogic now drowsy d), confidence = Fin 1,
            headPose = zeroPose, eyeAspectRatio = Fin 0, landmarks = Some closedEyesFace\<rparr>,
           snd (applyTimeBasedLogic now drowsy d))"
  by (rule analyze_eyes_closed[OF closedEyesFace_nonempty measurement_closedEyesFace])

lemma candidate_neutralFace:
  assumes "DROWSY_EAR_THRESHOLD d = 0.25" and "DISTRACTION_PITCH_THRESHOLD d = 20"
    and "RELAXING_YAW_THRESHOLD d = 30"
  shows "candidate d (Some neutralFace) = Some focused"
  using assms
  by (simp add: candidate_def neutralFace_nonempty measurement_neutralFace
      determineImmediateState_def zeroPose_def jgreater_def)

lemma analyze_neutralFace:
  assumes "DROWSY_EAR_THRESHOLD d = 0.25" and "DISTRACTION_PITCH_THRESHOLD d = 20"
    and "RELAXING_YAW_THRESHOLD d = 30"
  shows "analyzeFaceLandmarks now (Some neutralFace) d =
     Some (\<lparr>state = focused, confidence = Fin 1, headPose = zeroPose,
            eyeAspectRatio = Fin 0.5, landmarks = Some neutralFace\<rparr>,
           snd (applyTimeBasedLogic now focused d))"
proof -
  have i: "determineImmediateState d zeroPose (Fin 0.5) = focused"
    using assms by (simp add: determineImmediateState_def zeroPose_def jgreater_def)
  have k: "calculateConfidence (snd (applyTimeBasedLogic now focused d)) zeroPose (Fin 0.5) focused
             = Fin 1"
    using assms
    by (simp add: calculateConfidence_def snd_applyTimeBasedLogic jsub_def jgreater_def
        zeroPose_def)
  have f: "fst (applyTimeBasedLogic now focused d) = focused"
    by (simp add: fst_applyTimeBasedLogic)
  show ?thesis
    using analyze_measurement[OF neutralFace_nonempty measurement_neutralFace, of now d] i k f
    by simp
qed

lemmas run_simps =
  analyze_None analyze_closedEyesFace analyze_neutralFace candidate_closedEyesFace
  candidate_neutralFace
  applyTimeBasedLogic_def getPreviousValidState_def Let_def new_simps

section \<open>The properties\<close>

subsection \<open>C1: a candidate is held for its duration before it is emitted\<close>

text \<open>
  C1. Take any run of calls in which the immediate-state rule yields the same candidate
  \<open>c\<close> on every call, starting at a detector whose stored state is not \<open>c\<close>, so that the
  first call of the run is where the candidate appears. Every call returns; the stored
  \<open>stateStartTime\<close> after each call is the clock reading \<open>t0\<close> of the first; and the
  call at reading \<open>t\<close> emits \<open>focused\<close> when \<open>t - t0\<close> is below the hold duration of \<open>c\<close>
  and emits \<open>c\<close> when it has reached it. Call by call, whatever the detector: the
  emitted state is \<open>focused\<close> while \<open>now - stateStartTime\<close> (as stored by the call) is
  below the hold duration of the candidate, and the candidate from then on; a \<open>focused\<close>
  candidate is emitted at once. No assumption on the clock is needed.
\<close>

theorem hold_duration_before_emitting:
  assumes first: "currentState d \<noteq> c"
    and same: "\<forall>(t, arg) \<in> set ((t0, a0) # calls). candidate d arg = Some c"
  shows "(\<exists>out. analyzeAll d ((t0, a0) # calls) = Some out
      \<and> map (\<lambda>(r, d1). state r) out =
          map (\<lambda>(t, arg). if c = focused then focused
                            else if t - t0 < holdMs d c then focused else c) ((t0, a0) # calls)
      \<and> map (\<lambda>(r, d1). stateStartTime d1) out = map (\<lambda>call. t0) ((t0, a0) # calls)
      \<and> map (\<lambda>(r, d1). currentState d1) out = map (\<lambda>call. c) ((t0, a0) # calls))
    \<and> (\<forall>now arg e k. candidate e arg = Some k \<longrightarrow>
          (\<exists>r e1. analyzeFaceLandmarks now arg e = Some (r, e1)
             \<and> state r = (if k = focused then focused
                           else if now - stateStartTime e1 < holdMs e k then focused else k)))"
proof -
  let ?d1 = "d\<lparr>stateStartTime := t0, currentState := c\<rparr>"
  from same have c0: "candidate d a0 = Some c" by simp
  from analyze_new_candidate[OF c0 first[symmetric], of t0] obtain r0 where
    a: "analyzeFaceLandmarks t0 a0 d = Some (r0, ?d1)" and
    s: "state r0 = (if c = focused \<or> holdMs d c \<le> 0 then c else focused)"
    by blast
  have "\<forall>(t, arg) \<in> set calls. candidate ?d1 arg = Some c"
    using same by (auto simp add: candidate_update)
  from analyzeAll_steady[OF this, of t0 "holdMs d c"] have
    "\<exists>rest. analyzeAll ?d1 calls = Some rest
       \<and> map (\<lambda>(r, d1). state r) rest =
           map (\<lambda>(t, arg). if c = focused \<or> holdMs d c \<le> t - t0 then c else focused) calls
       \<and> map snd rest = map (\<lambda>call. ?d1) calls"
    by (simp add: holdMs_update)
  then obtain rest where
    b: "analyzeAll ?d1 calls = Some rest" and
    m: "map (\<lambda>(r, d1). state r) rest =
         map (\<lambda>(t, arg). if c = focused \<or> holdMs d c \<le> t - t0 then c else focused) calls" and
    n: "map snd rest = map (\<lambda>call. ?d1) calls"
    by blast
  have n1: "map (\<lambda>(r, d1). stateStartTime d1) rest = map (\<lambda>call. t0) calls"
  proof -
    have "map (\<lambda>(r, d1). stateStartTime d1) rest = map stateStartTime (map snd rest)"
      by (simp add: case_prod_unfold comp_def)
    then show ?thesis by (simp add: n comp_def)
  qed
  have n2: "map (\<lambda>(r, d1). currentState d1) rest = map (\<lambda>call. c) calls"
  proof -
    have "map (\<lambda>(r, d1). currentState d1) rest = map currentState (map snd rest)"
      by (simp add: case_prod_unfold comp_def)
    then show ?thesis by (simp add: n comp_def)
  qed
  have m1: "map (\<lambda>(t, arg). if c = focused \<or> holdMs d c \<le> t - t0 then c else focused) calls
      = map (\<lambda>(t, arg). if c = focused then focused
                            else if t - t0 < holdMs d c then focused else c) calls"
    by (rule map_cong) (auto simp add: not_less)
  have seq: "\<exists>out. analyzeAll d ((t0, a0) # calls) = Some out
      \<and> map (\<lambda>(r, d1). state r) out =
          map (\<lambda>(t, arg). if c = focused then focused
                            else if t - t0 < holdMs d c then focused else c) ((t0, a0) # calls)
      \<and> map (\<lambda>(r, d1). stateStartTime d1) out = map (\<lambda>call. t0) ((t0, a0) # calls)
      \<and> map (\<lambda>(r, d1). currentState d1) out = map (\<lambda>call. c) ((t0, a0) # calls)"
    using a b s m n1 n2 m1 by (auto simp add: not_less)
  have one: "\<exists>r e1. analyzeFaceLandmarks now arg e = Some (r, e1)
             \<and> state r = (if k = focused then focused
                           else if now - stateStartTime e1 < holdMs e k then focused else k)"
    if k: "candidate e arg = Some k" for now arg e k
  proof -
    obtain r e1 where x: "analyzeFaceLandmarks now arg e = Some (r, e1)"
      using analyzeFaceLandmarks_Some by blast
    from analyze_state[OF x k] x show ?thesis by (auto simp add: not_less)
  qed
  from seq one show ?thesis by blast
qed

text \<open>
  The run of the witness: eyes closed from 1000 ms on a new detector, read again 24999 ms
  and 25000 ms later; and one call on the neutral face.
\<close>

theorem hold_duration_before_emitting_witness:
  "currentState (new_AIStateDetector 0) \<noteq> drowsy
   \<and> candidate (new_AIStateDetector 0) (Some closedEyesFace) = Some drowsy
   \<and> (\<exists>out. analyzeAll (new_AIStateDetector 0)
                [(1000, Some closedEyesFace),
                 (25999, Some closedEyesFace),
                 (26000, Some closedEyesFace)] = Some out
         \<and> map (\<lambda>(r, d1). state r) out = [focused, focused, drowsy]
         \<and> map (\<lambda>(r, d1). stateStartTime d1) out = [1000, 1000, 1000]
         \<and> map (\<lambda>(r, d1). currentState d1) out = [drowsy, drowsy, drowsy])
   \<and> candidate (new_AIStateDetector 0) (Some neutralFace) = Some focused
   \<and> (\<exists>r e1. analyzeFaceLandmarks 1000 (Some neutralFace) (new_AIStateDetector 0)
                 = Some (r, e1)
         \<and> state r = focused)"
proof -
  let ?p = "Some closedEyesFace"
  let ?d = "new_AIStateDetector 0"
  have c: "candidate ?d ?p = Some drowsy" by (simp add: run_simps)
  have f: "candidate ?d (Some neutralFace) = Some focused" by (simp add: run_simps)
  have h1: "currentState ?d \<noteq> drowsy" by (simp add: new_simps)
  have h2: "\<forall>(t, arg) \<in> set ((1000, ?p) # [(25999, ?p), (26000, ?p)]).
              candidate ?d arg = Some drowsy"
    by (simp add: c)
  note t = hold_duration_before_emitting[OF h1 h2]
  from t have
    "\<exists>r e1. analyzeFaceLandmarks 1000 (Some neutralFace) ?d = Some (r, e1)
       \<and> state r = (if focused = focused then focused
                     else if 1000 - stateStartTime e1 < holdMs ?d focused then focused
                     else focused)"
    using f by blast
  with t c f h1 h2 show ?thesis
    by (simp add: holdMs_def run_simps)
qed

subsection \<open>C2: the confidence is that of the candidate, not of the emitted state\<close>

text \<open>
  C2 as stated fails. Eyes closed for the first time at 1000 ms on a new detector: the
  candidate is \<open>drowsy\<close>, the hold has not run, the emitted state is \<open>focused\<close>, and the
  confidence is 1, the drowsy value for an eye aspect ratio of 0. The focused formula on
  this measurement gives 2/3.
\<close>

theorem confidence_of_emitted_state_counterexample:
  "analyzeFaceLandmarks 1000 (Some closedEyesFace) (new_AIStateDetector 0) =
     Some (\<lparr>state = focused, confidence = Fin 1, headPose = zeroPose, eyeAspectRatio = Fin 0,
            landmarks = Some closedEyesFace\<rparr>,
           (new_AIStateDetector 0)\<lparr>stateStartTime := 1000, currentState := drowsy\<rparr>)
   \<and> specConfidence (DROWSY_EAR_THRESHOLD (new_AIStateDetector 0)) zeroPose (Fin 0) focused
       = Fin (2 / 3)
   \<and> Fin 1 \<noteq> Fin (2 / 3)"
  by (simp add: run_simps specConfidence_def zeroPose_def jsub_def jgreater_def)

text \<open>
  C2, amended. For every call that has a candidate (a non-empty landmark array), the
  returned confidence is the per-state formula of the specification applied to the
  returned head pose and eye aspect ratio and to the candidate of the immediate-state
  rule, which is the \<open>currentState\<close> the call stores. The emitted state is that candidate
  or, during the hold window, \<open>focused\<close>; the confidence is the candidate's in both cases.
\<close>

theorem confidence_of_candidate_state:
  assumes "candidate d arg = Some c"
  shows "\<exists>r d1. analyzeFaceLandmarks now arg d = Some (r, d1)
     \<and> currentState d1 = c
     \<and> confidence r =
         specConfidence (DROWSY_EAR_THRESHOLD d) (headPose r) (eyeAspectRatio r) c
     \<and> (state r = c \<or> state r = focused)"
proof -
  obtain r d1 where a: "analyzeFaceLandmarks now arg d = Some (r, d1)"
    using analyzeFaceLandmarks_Some by blast
  have "currentState d1 = c" using analyze_currentState[OF a] assms by simp
  moreover have "state r = c \<or> state r = focused" using analyze_state[OF a assms] by simp
  ultimately show ?thesis using a analyze_confidence[OF a assms]
    by (simp add: calculateConfidence_spec)
qed

theorem confidence_of_candidate_state_witness:
  "candidate (new_AIStateDetector 0) (Some closedEyesFace) = Some drowsy
   \<and> (\<exists>r d1. analyzeFaceLandmarks 1000 (Some closedEyesFace) (new_AIStateDetector 0)
                = Some (r, d1)
        \<and> currentState d1 = drowsy
        \<and> confidence r = specConfidence 0.25 (headPose r) (eyeAspectRatio r) drowsy
        \<and> (state r = drowsy \<or> state r = focused))"
proof -
  have h: "candidate (new_AIStateDetector 0) (Some closedEyesFace) = Some drowsy"
    by (simp add: run_simps)
  show ?thesis using h confidence_of_candidate_state[OF h, of 1000] by (simp add: new_simps)
qed

subsection \<open>C3: the priority order of the immediate-state rule\<close>

text \<open>
  C3. The immediate-state rule tries its conditions in a fixed order and the first that
  holds decides: an eye aspect ratio below the drowsy threshold gives \<open>drowsy\<close>; otherwise
  a pitch above the distraction threshold gives \<open>distracted\<close>; otherwise a yaw beyond the
  relaxing threshold on either side, or a pitch below -15 degrees, gives \<open>relaxing\<close>;
  otherwise \<open>focused\<close>. In particular closed eyes together with a lowered head is \<open>drowsy\<close>.
\<close>

theorem determineImmediateState_priority:
  "(jless ear (Fin (DROWSY_EAR_THRESHOLD d)) \<longrightarrow> determineImmediateState d hp ear = drowsy)
   \<and> (\<not> jless ear (Fin (DROWSY_EAR_THRESHOLD d))
        \<and> jgreater (pitch hp) (Fin (DISTRACTION_PITCH_THRESHOLD d))
       \<longrightarrow> determineImmediateState d hp ear = distracted)
   \<and> (\<not> jless ear (Fin (DROWSY_EAR_THRESHOLD d))
        \<and> \<not> jgreater (pitch hp) (Fin (DISTRACTION_PITCH_THRESHOLD d))
        \<and> (jgreater (Math_abs (yaw hp)) (Fin (RELAXING_YAW_THRESHOLD d))
             \<or> jless (pitch hp) (Fin (- 15)))
       \<longrightarrow> determineImmediateState d hp ear = relaxing)
   \<and> (\<not> jless ear (Fin (DROWSY_EAR_THRESHOLD d))
        \<and> \<not> jgreater (pitch hp) (Fin (DISTRACTION_PITCH_THRESHOLD d))
        \<and> \<not> jgreater (Math_abs (yaw hp)) (Fin (RELAXING_YAW_THRESHOLD d))
        \<and> \<not> jless (pitch hp) (Fin (- 15))
       \<longrightarrow> determineImmediateState d hp ear = focused)
   \<and> (jless ear (Fin (DROWSY_EAR_THRESHOLD d))
        \<and> jgreater (pitch hp) (Fin (DISTRACTION_PITCH_THRESHOLD d))
       \<longrightarrow> determineImmediateState d hp ear = drowsy)"
  by (simp add: determineImmediateState_def)

theorem determineImmediateState_priority_witness:
  "(jless (Fin 0.1) (Fin (DROWSY_EAR_THRESHOLD (new_AIStateDetector 0)))
    \<and> jgreater (pitch \<lparr>pitch = Fin 25, yaw = Fin 0, roll = Fin 0\<rparr>)
         (Fin (DISTRACTION_PITCH_THRESHOLD (new_AIStateDetector 0)))
    \<and> determineImmediateState (new_AIStateDetector 0)
         \<lparr>pitch = Fin 25, yaw = Fin 0, roll = Fin 0\<rparr> (Fin 0.1) = drowsy)
   \<and> (\<not> jless (Fin 0.35) (Fin (DROWSY_EAR_THRESHOLD (new_AIStateDetector 0)))
    \<and> jgreater (pitch \<lparr>pitch = Fin 25, yaw = Fin 40, roll = Fin 0\<rparr>)
         (Fin (DISTRACTION_PITCH_THRESHOLD (new_AIStateDetector 0)))
    \<and> determineImmediateState (new_AIStateDetector 0)
         \<lparr>pitch = Fin 25, yaw = Fin 40, roll = Fin 0\<rparr> (Fin 0.35) = distracted)
   \<and> (\<not> jless (Fin 0.35) (Fin (DROWSY_EAR_THRESHOLD (new_AIStateDetector 0)))
    \<and> \<not> jgreater (pitch \<lparr>pitch = Fin (- 20), yaw = Fin 0, roll = Fin 0\<rparr>)
         (Fin (DISTRACTION_PITCH_THRESHOLD (new_AIStateDetector 0)))
    \<and> jless (pitch \<lparr>pitch = Fin (- 20), yaw = Fin 0, roll = Fin 0\<rparr>) (Fin (- 15))
    \<and> determineImmediateState (new_AIStateDetector 0)
         \<lparr>pitch = Fin (- 20), yaw = Fin 0, roll = Fin 0\<rparr> (Fin 0.35) = relaxing)
   \<and> (\<not> jless NaN (Fin (DROWSY_EAR_THRESHOLD (new_AIStateDetector 0)))
    \<and> \<not> jgreater (pitch \<lparr>pitch = Fin 20, yaw = Fin (- 30), roll = Fin 0\<rparr>)
         (Fin (DISTRACTION_PITCH_THRESHOLD (new_AIStateDetector 0)))
    \<and> \<not> jgreater (Math_abs (yaw \<lparr>pitch = Fin 20, yaw = Fin (- 30), roll = Fin 0\<rparr>))
         (Fin (RELAXING_YAW_THRESHOLD (new_AIStateDetector 0)))
    \<and> \<not> jless (pitch \<lparr>pitch = Fin 20, yaw = Fin (- 30), roll = Fin 0\<rparr>) (Fin (- 15))
    \<and> determineImmediateState (new_AIStateDetector 0)
         \<lparr>pitch = Fin 20, yaw = Fin (- 30), roll = Fin 0\<rparr> NaN = focused)"
proof -
  let ?d = "new_AIStateDetector 0"
  show ?thesis
    using determineImmediateState_priority
            [of "Fin 0.1" ?d "\<lparr>pitch = Fin 25, yaw = Fin 0, roll = Fin 0\<rparr>"]
          determineImmediateState_priority
            [of "Fin 0.35" ?d "\<lparr>pitch = Fin 25, yaw = Fin 40, roll = Fin 0\<rparr>"]
          determineImmediateState_priority
            [of "Fin 0.35" ?d "\<lparr>pitch = Fin (- 20), yaw = Fin 0, roll = Fin 0\<rparr>"]
          determineImmediateState_priority
            [of NaN ?d "\<lparr>pitch = Fin 20, yaw = Fin (- 30), roll = Fin 0\<rparr>"]
    by (simp add: new_simps jgreater_def)
qed

subsection \<open>C4: the start time only moves forward, and moves exactly when the candidate changes\<close>

text \<open>
  C4. Over every sequence of calls whose clock readings do not decrease and are not
  before the stored \<open>stateStartTime\<close>, every call returns and the stored \<open>stateStartTime\<close>
  never decreases from one call to the next. In each single call it becomes the clock
  reading when the candidate differs from the stored \<open>currentState\<close>, and stays as it is
  when the candidate equals it (and when there is no candidate at all).
\<close>

theorem stateStartTime_monotone_and_set_on_change:
  assumes "sorted (map fst calls)" and "\<forall>t \<in> set (map fst calls). stateStartTime d \<le> t"
  shows "(\<exists>out. analyzeAll d calls = Some out \<and> length out = length calls
           \<and> sorted (stateStartTime d # map (\<lambda>(r, d1). stateStartTime d1) out))
    \<and> (\<forall>now arg e. \<exists>r e1. analyzeFaceLandmarks now arg e = Some (r, e1)
          \<and> stateStartTime e1 =
              (case candidate e arg of
                 None \<Rightarrow> stateStartTime e
               | Some k \<Rightarrow> if k \<noteq> currentState e then now else stateStartTime e))"
proof -
  have "\<exists>r e1. analyzeFaceLandmarks now arg e = Some (r, e1)
          \<and> stateStartTime e1 =
              (case candidate e arg of
                 None \<Rightarrow> stateStartTime e
               | Some k \<Rightarrow> if k \<noteq> currentState e then now else stateStartTime e)"
    for now arg e
    using analyzeFaceLandmarks_Some[of now arg e] analyze_stateStartTime by blast
  with analyzeAll_stateStartTime_sorted[OF assms] show ?thesis by blast
qed

theorem stateStartTime_monotone_and_set_on_change_witness:
  "sorted (map fst [(1000, Some closedEyesFace), (2000, Some neutralFace),
                    (2000, None), (3000::int, Some neutralFace)])
   \<and> stateStartTime (new_AIStateDetector 0) \<le> 1000
   \<and> (\<exists>out. analyzeAll (new_AIStateDetector 0)
                [(1000, Some closedEyesFace), (2000, Some neutralFace),
                 (2000, None), (3000, Some neutralFace)] = Some out
         \<and> length out = 4
         \<and> map (\<lambda>(r, d1). stateStartTime d1) out = [1000, 2000, 2000, 2000]
         \<and> sorted (stateStartTime (new_AIStateDetector 0)
                     # map (\<lambda>(r, d1). stateStartTime d1) out))
   \<and> (\<exists>r e1. analyzeFaceLandmarks 1000 (Some closedEyesFace) (new_AIStateDetector 0)
                 = Some (r, e1)
         \<and> stateStartTime e1 = 1000)"
proof -
  let ?p = "Some closedEyesFace"
  let ?d = "new_AIStateDetector 0"
  let ?calls = "[(1000, ?p), (2000, Some neutralFace), (2000, None), (3000::int, Some neutralFace)]"
  have h1: "sorted (map fst ?calls)" by simp
  have h2: "\<forall>t \<in> set (map fst ?calls). stateStartTime ?d \<le> t" by (simp add: new_simps)
  from stateStartTime_monotone_and_set_on_change[OF h1 h2] h1 h2 show ?thesis
    by (simp add: run_simps)
qed

subsection \<open>C5: the range of the confidence\<close>

text \<open>
  C5 as stated fails on the empty landmark array: the confidence returned is 0.
\<close>

theorem confidence_range_counterexample:
  "analyzeFaceLandmarks 1000 (Some []) (new_AIStateDetector 0) =
     Some (\<lparr>state = unknown, confidence = Fin 0, headPose = zeroPose, eyeAspectRatio = Fin 0,
            landmarks = None\<rparr>, new_AIStateDetector 0)
   \<and> \<not> confidenceInRange (Fin 0)"
  by (simp add: analyzeFaceLandmarks_def)

text \<open>
  C5, amended. A call with a missing or empty landmark array returns the confidence 0.
  A call with a non-empty array whose returned pitch and yaw are numbers returns a
  confidence in the interval from 0.1 to 1.0, never 0.
\<close>

theorem confidence_range_nonempty:
  "(arg = None \<or> arg = Some [] \<longrightarrow>
      (\<exists>r. analyzeFaceLandmarks now arg d = Some (r, d) \<and> confidence r = Fin 0))
   \<and> (arg \<noteq> None \<and> arg \<noteq> Some [] \<longrightarrow>
      (\<exists>r d1. analyzeFaceLandmarks now arg d = Some (r, d1)
         \<and> (pitch (headPose r) \<noteq> NaN \<and> yaw (headPose r) \<noteq> NaN
              \<longrightarrow> confidenceInRange (confidence r) \<and> confidence r \<noteq> Fin 0)))"
proof -
  have "\<exists>r d1. analyzeFaceLandmarks now arg d = Some (r, d1)
         \<and> (pitch (headPose r) \<noteq> NaN \<and> yaw (headPose r) \<noteq> NaN
              \<longrightarrow> confidenceInRange (confidence r) \<and> confidence r \<noteq> Fin 0)"
    if ne: "arg \<noteq> None" "arg \<noteq> Some []"
  proof -
    from ne obtain lms where l: "arg = Some lms" "lms \<noteq> []" by auto
    obtain hp ear where "measurement lms = Some (hp, ear)" using measurement_total by blast
    with l have c: "candidate d arg = Some (determineImmediateState d hp ear)"
      by (simp add: candidate_def)
    obtain r d1 where a: "analyzeFaceLandmarks now arg d = Some (r, d1)"
      using analyzeFaceLandmarks_Some by blast
    from analyze_confidence[OF a c] have
      k: "confidence r = calculateConfidence d (headPose r) (eyeAspectRatio r)
            (determineImmediateState d (headPose r) (eyeAspectRatio r))"
      by simp
    have "confidenceInRange (confidence r) \<and> confidence r \<noteq> Fin 0"
      if "pitch (headPose r) \<noteq> NaN" "yaw (headPose r) \<noteq> NaN"
    proof -
      have "confidenceInRange (confidence r)"
        unfolding k using that by (rule confidence_in_range)
      then show ?thesis by (cases "confidence r") auto
    qed
    with a show ?thesis by blast
  qed
  then show ?thesis by (auto simp add: analyzeFaceLandmarks_def)
qed

theorem confidence_range_nonempty_witness:
  "Some neutralFace \<noteq> None \<and> Some neutralFace \<noteq> Some []
   \<and> (\<exists>r d1. analyzeFaceLandmarks 1000 (Some neutralFace) (new_AIStateDetector 0)
                 = Some (r, d1)
         \<and> pitch (headPose r) \<noteq> NaN \<and> yaw (headPose r) \<noteq> NaN
         \<and> confidenceInRange (confidence r) \<and> confidence r \<noteq> Fin 0)
   \<and> (\<exists>r. analyzeFaceLandmarks 1000 (Some []) (new_AIStateDetector 0)
                 = Some (r, new_AIStateDetector 0) \<and> confidence r = Fin 0)"
  using confidence_range_nonempty[of "Some neutralFace" 1000 "new_AIStateDetector 0"]
    confidence_range_nonempty[of "Some []" 1000 "new_AIStateDetector 0"]
  by (simp add: run_simps neutralFace_nonempty zeroPose_def)

text \<open>
  The numbers in the amended C5 are needed. On a face collapsed to one point the forehead,
  the nose and the chin are at one height, the pitch is the quotient of two zeros, the
  candidate is \<open>focused\<close>, and the clamp passes the NaN of the pitch score through.
\<close>

lemma collapsed_face_confidence_NaN:
  "analyzeFaceLandmarks 1000 (Some (replicate 468 (Point (Fin 0) (Fin 0)))) (new_AIStateDetector 0) =
     Some (\<lparr>state = focused, confidence = NaN,
            headPose = \<lparr>pitch = NaN, yaw = Fin 0, roll = NaN\<rparr>, eyeAspectRatio = NaN,
            landmarks = Some (replicate 468 (Point (Fin 0) (Fin 0)))\<rparr>,
           (new_AIStateDetector 0)\<lparr>stateStartTime := 1000, currentState := focused\<rparr>)"
proof -
  let ?l = "replicate 468 (Point (Fin 0) (Fin 0))"
  have i: "idx ?l (Suc 0) = Point (Fin 0) (Fin 0)" "idx ?l 10 = Point (Fin 0) (Fin 0)"
    "idx ?l 175 = Point (Fin 0) (Fin 0)" "idx ?l 33 = Point (Fin 0) (Fin 0)"
    "idx ?l 263 = Point (Fin 0) (Fin 0)"
    "map (idx ?l) leftEyeIndices = replicate 6 (Point (Fin 0) (Fin 0))"
    "map (idx ?l) rightEyeIndices = replicate 6 (Point (Fin 0) (Fin 0))"
    by (simp_all add: idx_def leftEyeIndices_def rightEyeIndices_def numeral_eq_Suc)
  have h: "calculateHeadPose ?l = Some \<lparr>pitch = NaN, yaw = Fin 0, roll = NaN\<rparr>"
    by (simp add: calculateHeadPose_def i Let_def jsub_def jgreater_def)
  have e: "calculateEAR (replicate 6 (Point (Fin 0) (Fin 0))) = Some NaN"
    by (simp add: calculateEAR_def idx_def jsub_def Math_pow2_def numeral_eq_Suc)
  have m: "measurement ?l = Some (\<lparr>pitch = NaN, yaw = Fin 0, roll = NaN\<rparr>, NaN)"
    by (simp add: measurement_def h i e)
  have s: "determineImmediateState (new_AIStateDetector 0) \<lparr>pitch = NaN, yaw = Fin 0, roll = NaN\<rparr> NaN
             = focused"
    by (simp add: determineImmediateState_def new_simps jgreater_def)
  have ne: "?l \<noteq> []" by simp
  show ?thesis
    using analyze_measurement[OF ne m, of 1000 "new_AIStateDetector 0"]
    by (simp add: s applyTimeBasedLogic_def Let_def new_simps calculateConfidence_def jsub_def
        jgreater_def)
qed

subsection \<open>C6: the drowsy confidence against the eye aspect ratio\<close>

text \<open>
  C6 as stated fails: the floor of 0.1 makes the drowsy confidence constant on the upper
  tenth of the drowsy range. With the threshold 0.25, the ratios 0.23 and 0.24 are both
  drowsy and both have confidence 0.1.
\<close>

theorem drowsy_confidence_strict_counterexample:
  "determineImmediateState (new_AIStateDetector 0) zeroPose (Fin 0.23) = drowsy
   \<and> determineImmediateState (new_AIStateDetector 0) zeroPose (Fin 0.24) = drowsy
   \<and> calculateConfidence (new_AIStateDetector 0) zeroPose (Fin 0.23) drowsy = Fin 0.1
   \<and> calculateConfidence (new_AIStateDetector 0) zeroPose (Fin 0.24) drowsy = Fin 0.1"
  by (simp add: determineImmediateState_def calculateConfidence_def new_simps jsub_def)

text \<open>
  C6, amended. With a positive drowsy threshold and the other inputs fixed, over the
  drowsy range \<open>0 \<le> EAR < threshold\<close> the drowsy confidence never decreases as the eye
  aspect ratio decreases, and it is constant at 0.1 for ratios from nine tenths of the
  threshold up. Strict increase is not stated: below the floor it holds for the exact
  quotient only, and a double rounds neighbouring ratios to one value.
\<close>

theorem drowsy_confidence_monotone:
  assumes "0 < DROWSY_EAR_THRESHOLD d" and "0 \<le> e1" and "e1 < e2"
    and "e2 < DROWSY_EAR_THRESHOLD d"
  shows "\<exists>c1 c2. calculateConfidence d hp (Fin e1) drowsy = Fin c1
     \<and> calculateConfidence d hp (Fin e2) drowsy = Fin c2
     \<and> c2 \<le> c1
     \<and> (0.9 * DROWSY_EAR_THRESHOLD d \<le> e1 \<longrightarrow> c1 = 0.1 \<and> c2 = 0.1)"
proof -
  let ?t = "DROWSY_EAR_THRESHOLD d"
  have v1: "calculateConfidence d hp (Fin e1) drowsy = Fin (max 0.1 (1 - e1 / ?t))"
    using assms by (intro drowsy_confidence_value) auto
  have v2: "calculateConfidence d hp (Fin e2) drowsy = Fin (max 0.1 (1 - e2 / ?t))"
    using assms by (intro drowsy_confidence_value) auto
  define x where "x = e1 / ?t"
  define y where "y = e2 / ?t"
  have lt: "x < y" unfolding x_def y_def using assms(1,3) by (simp add: divide_strict_right_mono)
  have a: "max 0.1 (1 - y) \<le> max 0.1 (1 - x)" using lt by linarith
  have c: "max 0.1 (1 - x) = 0.1 \<and> max 0.1 (1 - y) = 0.1" if "0.9 * ?t \<le> e1"
  proof -
    from that assms(1) have "0.9 \<le> x" unfolding x_def by (simp add: pos_le_divide_eq)
    with lt show ?thesis by linarith
  qed
  from v1 v2 a c show ?thesis unfolding x_def y_def by blast
qed

text \<open>
  The ratios of the witness are binary fractions, so that the quotients and differences
  are the same in doubles: 1/8 and 3/16 below the floor, 15/64 and 31/128 on it.
\<close>

theorem drowsy_confidence_monotone_witness:
  "0 < DROWSY_EAR_THRESHOLD (new_AIStateDetector 0)
   \<and> (0::real) \<le> 1 / 8 \<and> (1 / 8 :: real) < 3 / 16
   \<and> 3 / 16 < DROWSY_EAR_THRESHOLD (new_AIStateDetector 0)
   \<and> calculateConfidence (new_AIStateDetector 0) zeroPose (Fin (1 / 8)) drowsy = Fin (1 / 2)
   \<and> calculateConfidence (new_AIStateDetector 0) zeroPose (Fin (3 / 16)) drowsy = Fin (1 / 4)
   \<and> (1 / 4 :: real) \<le> 1 / 2
   \<and> 0.9 * DROWSY_EAR_THRESHOLD (new_AIStateDetector 0) \<le> 15 / 64
   \<and> (15 / 64 :: real) < 31 / 128
   \<and> 31 / 128 < DROWSY_EAR_THRESHOLD (new_AIStateDetector 0)
   \<and> calculateConfidence (new_AIStateDetector 0) zeroPose (Fin (15 / 64)) drowsy = Fin 0.1
   \<and> calculateConfidence (new_AIStateDetector 0) zeroPose (Fin (31 / 128)) drowsy = Fin 0.1"
proof -
  let ?d = "new_AIStateDetector 0"
  have h: "0 < DROWSY_EAR_THRESHOLD ?d" "(0::real) \<le> 1 / 8" "(1 / 8 :: real) < 3 / 16"
    "3 / 16 < DROWSY_EAR_THRESHOLD ?d" "(0::real) \<le> 15 / 64" "(15 / 64 :: real) < 31 / 128"
    "31 / 128 < DROWSY_EAR_THRESHOLD ?d"
    by (simp_all add: new_simps)
  have v: "calculateConfidence ?d zeroPose (Fin (1 / 8)) drowsy = Fin (1 / 2)"
    "calculateConfidence ?d zeroPose (Fin (3 / 16)) drowsy = Fin (1 / 4)"
    "calculateConfidence ?d zeroPose (Fin (15 / 64)) drowsy = Fin 0.1"
    "calculateConfidence ?d zeroPose (Fin (31 / 128)) drowsy = Fin 0.1"
    by (simp_all add: calculateConfidence_def new_simps jsub_def)
  show ?thesis
    using drowsy_confidence_monotone[OF h(1) h(2) h(3) h(4), of zeroPose]
      drowsy_confidence_monotone[OF h(1) h(5) h(6) h(7), of zeroPose] v
    by (simp add: new_simps)
qed

subsection \<open>C7: reset\<close>

text \<open>
  C7. After any history of calls on a new detector, \<open>reset\<close> sets \<open>currentState\<close> to
  \<open>unknown\<close> and \<open>stateStartTime\<close> to the clock reading and changes nothing else: the
  six thresholds are as before, and the timer map, which no call ever fills, is as
  before.
\<close>

theorem reset_only_state_and_time:
  assumes "reachable d"
  shows "reset now d = d\<lparr>currentState := unknown, stateStartTime := now\<rparr>
     \<and> currentState (reset now d) = unknown
     \<and> stateStartTime (reset now d) = now
     \<and> stateTimers (reset now d) = stateTimers d
     \<and> DROWSY_EAR_THRESHOLD (reset now d) = DROWSY_EAR_THRESHOLD d
     \<and> DROWSY_TIME_THRESHOLD (reset now d) = DROWSY_TIME_THRESHOLD d
     \<and> DISTRACTION_PITCH_THRESHOLD (reset now d) = DISTRACTION_PITCH_THRESHOLD d
     \<and> DISTRACTION_TIME_THRESHOLD (reset now d) = DISTRACTION_TIME_THRESHOLD d
     \<and> RELAXING_YAW_THRESHOLD (reset now d) = RELAXING_YAW_THRESHOLD d
     \<and> RELAXING_TIME_THRESHOLD (reset now d) = RELAXING_TIME_THRESHOLD d"
proof -
  have "stateTimers d = []" using assms by (rule reachable_stateTimers)
  then show ?thesis by (simp add: reset_def resetTimers_def)
qed

theorem reset_only_state_and_time_witness:
  "reachable ((new_AIStateDetector 0)\<lparr>stateStartTime := 1000, currentState := drowsy\<rparr>)
   \<and> reset 2000 ((new_AIStateDetector 0)\<lparr>stateStartTime := 1000, currentState := drowsy\<rparr>)
       = (new_AIStateDetector 0)\<lparr>stateStartTime := 2000\<rparr>"
proof -
  have a: "analyzeFaceLandmarks 1000 (Some closedEyesFace) (new_AIStateDetector 0) =
     Some (\<lparr>state = focused, confidence = Fin 1, headPose = zeroPose, eyeAspectRatio = Fin 0,
            landmarks = Some closedEyesFace\<rparr>,
           (new_AIStateDetector 0)\<lparr>stateStartTime := 1000, currentState := drowsy\<rparr>)"
    by (simp add: run_simps)
  have r: "reachable ((new_AIStateDetector 0)\<lparr>stateStartTime := 1000, currentState := drowsy\<rparr>)"
    by (rule reachable.analyzed[OF reachable.constructed a])
  show ?thesis using r reset_only_state_and_time[OF r, of 2000]
    by (simp add: new_AIStateDetector_def resetTimers_def)
qed

subsection \<open>C8: unknown is entered only at construction and by reset\<close>

text \<open>
  C8. A new detector is in \<open>unknown\<close>. A call with a non-empty landmark array returns,
  emits a state other than \<open>unknown\<close> and stores a state other than \<open>unknown\<close>. Over any
  sequence of calls starting at a detector whose stored state is not \<open>unknown\<close>, the
  stored state is not \<open>unknown\<close> after any of them. \<open>reset\<close> stores \<open>unknown\<close>.
\<close>

theorem unknown_only_initially_or_by_reset:
  "currentState (new_AIStateDetector t0) = unknown
   \<and> (lms \<noteq> [] \<longrightarrow>
        (\<exists>r d1. analyzeFaceLandmarks now (Some lms) d = Some (r, d1)
           \<and> state r \<noteq> unknown \<and> currentState d1 \<noteq> unknown))
   \<and> (currentState d \<noteq> unknown \<longrightarrow>
        (\<exists>out. analyzeAll d calls = Some out \<and> length out = length calls
           \<and> (\<forall>(r, d1) \<in> set out. currentState d1 \<noteq> unknown)))
   \<and> currentState (reset now d) = unknown"
proof -
  have "\<exists>r d1. analyzeFaceLandmarks now (Some lms) d = Some (r, d1)
           \<and> state r \<noteq> unknown \<and> currentState d1 \<noteq> unknown" if ne: "lms \<noteq> []"
  proof -
    obtain hp ear where m: "measurement lms = Some (hp, ear)" using measurement_total by blast
    let ?c = "determineImmediateState d hp ear"
    have c: "candidate d (Some lms) = Some ?c" using ne m by (simp add: candidate_def)
    obtain r d1 where a: "analyzeFaceLandmarks now (Some lms) d = Some (r, d1)"
      using analyzeFaceLandmarks_Some by blast
    have "currentState d1 = ?c" using analyze_currentState[OF a] c by simp
    moreover have "state r \<noteq> unknown"
      using analyze_state[OF a c] determineImmediateState_not_unknown[of d hp ear]
      by (simp split: if_splits)
    ultimately show ?thesis using a determineImmediateState_not_unknown[of d hp ear] by simp
  qed
  moreover have "\<exists>out. analyzeAll d calls = Some out \<and> length out = length calls
           \<and> (\<forall>(r, d1) \<in> set out. currentState d1 \<noteq> unknown)" if "currentState d \<noteq> unknown"
    using analyzeAll_total[of d calls] analyzeAll_currentState[OF that] by blast
  ultimately show ?thesis by (simp add: new_simps reset_def resetTimers_def)
qed

theorem unknown_only_initially_or_by_reset_witness:
  "neutralFace \<noteq> []
   \<and> currentState ((new_AIStateDetector 0)\<lparr>stateStartTime := 1000, currentState := drowsy\<rparr>)
       \<noteq> unknown
   \<and> (\<exists>r d1. analyzeFaceLandmarks 1000 (Some neutralFace) (new_AIStateDetector 0)
                 = Some (r, d1)
         \<and> state r \<noteq> unknown \<and> currentState d1 \<noteq> unknown)
   \<and> (\<exists>out. analyzeAll ((new_AIStateDetector 0)\<lparr>stateStartTime := 1000, currentState := drowsy\<rparr>)
                [(2000, None), (3000, Some neutralFace)] = Some out
         \<and> length out = 2
         \<and> (\<forall>(r, d1) \<in> set out. currentState d1 \<noteq> unknown))"
  using unknown_only_initially_or_by_reset
          [of 0 neutralFace 1000 "new_AIStateDetector 0" "[]"]
        unknown_only_initially_or_by_reset
          [of 0 "[]" 1000
              "(new_AIStateDetector 0)\<lparr>stateStartTime := 1000, currentState := drowsy\<rparr>"
              "[(2000, None), (3000, Some neutralFace)]"]
  by (simp add: run_simps neutralFace_nonempty)

subsection \<open>C9: no call throws\<close>

text \<open>
  C9. \<open>analyzeFaceLandmarks\<close> never throws: for every clock reading, argument and detector it
  returns a result, and of the detector it changes nothing but \<open>currentState\<close> and
  \<open>stateStartTime\<close>.
\<close>

theorem analyzeFaceLandmarks_total:
  "\<exists>r d1. analyzeFaceLandmarks now arg d = Some (r, d1)
     \<and> d1 = d\<lparr>currentState := currentState d1, stateStartTime := stateStartTime d1\<rparr>"
  using analyzeFaceLandmarks_Some[of now arg d] analyze_frame by blast

subsection \<open>C10: a call without landmarks\<close>

text \<open>
  C10. Called with a null or an empty landmark array, \<open>analyzeFaceLandmarks\<close> returns the
  state \<open>unknown\<close> with confidence 0, a zero head pose and a zero eye aspect ratio, and
  the detector is exactly as it was.
\<close>

theorem analyzeFaceLandmarks_no_landmarks:
  "analyzeFaceLandmarks now None d =
     Some (\<lparr>state = unknown, confidence = Fin 0,
            headPose = \<lparr>pitch = Fin 0, yaw = Fin 0, roll = Fin 0\<rparr>,
            eyeAspectRatio = Fin 0, landmarks = None\<rparr>, d)
   \<and> analyzeFaceLandmarks now (Some []) d =
     Some (\<lparr>state = unknown, confidence = Fin 0,
            headPose = \<lparr>pitch = Fin 0, yaw = Fin 0, roll = Fin 0\<rparr>,
            eyeAspectRatio = Fin 0, landmarks = None\<rparr>, d)"
  by (simp add: analyzeFaceLandmarks_def zeroPose_def)

end
